theory Spec2Isabelle
  imports Main
begin

section \<open>The switchable heterogeneous processor of configs/martian/switchable_hetproc.py\<close>

text \<open>
  The processor groups core handles into named configurations (a Python dictionary from a
  configuration name to a list of cores), remembers the list that is currently switched
  in, and hands a switch over to \<open>m5.switchCpus\<close>. Python objects have identity and are
  mutated in place, so cores live in a store and the lists hold references to them.
  Every method is a function from the state before the call to an outcome and the state
  after it: an exception is the outcome \<open>Inl\<close>, paired with the state at the moment
  of the raise.
\<close>

subsection \<open>Data\<close>

text \<open>\<open>gem5.isas.ISA\<close>, an enumeration; only \<open>ISA.X86\<close> is named under src.\<close>

datatype ISA = ARM | MIPS | POWER | RISCV | SPARC | X86 | NULL

text \<open>\<open>gem5.components.boards.mem_mode.MemMode\<close>, with the three members the source names
  or receives.\<close>

datatype MemMode = TIMING | ATOMIC | ATOMIC_NONCACHING

text \<open>The exceptions of the source: \<open>raise AssertionError(msg)\<close> and a failed
  \<open>assert\<close> (empty message), the \<open>IndexError\<close> of \<open>cores[0]\<close> on an empty list,
  and the error the substrate raises when it refuses a swap.\<close>

datatype error = AssertionError string | IndexError | RuntimeError string

type_synonym core_ref = nat

text \<open>
  A \<open>BaseCPUCore\<close> handle together with the one sim object it wraps
  (\<open>core.get_simobject()\<close>): the instruction set of the handle (\<open>get_isa\<close>), whether
  the sim object is a KVM CPU (\<open>is_kvm_core\<close>), its switched-out flag, the event queue
  (timeline) it runs on, the event queues of the sub-objects it owns (the proper
  descendants of the sim object, in the order \<open>descendants()\<close> yields them) and the
  memory mode its class asks for. A handle owns its sim object and a sim object owns its
  sub-objects, so they are kept together under the identity of the handle.
\<close>

record BaseCPUCore =
  isa :: ISA
  is_kvm :: bool
  switched_out :: bool
  eventq_index :: nat
  sub_eventq :: "nat list"
  memory_mode :: MemMode

type_synonym store = "core_ref \<Rightarrow> BaseCPUCore"

text \<open>The board, as far as the processor uses it: the kind of its cache hierarchy
  (\<open>get_cache_hierarchy().is_ruby()\<close>) and the memory mode \<open>set_mem_mode\<close> records.\<close>

record AbstractBoard =
  is_ruby :: bool
  mem_mode :: "MemMode option"

text \<open>
  The attributes of a \<open>SwitchableHetProcessor\<close>. The dictionary \<open>_switchable_cores\<close>
  is an association list in insertion order (\<open>.items()\<close>, \<open>.values()\<close> and \<open>.keys()\<close>
  iterate in that order, \<open>d[k]\<close> is \<open>map_of\<close>); \<open>board = None\<close> stands for the
  attribute \<open>_board\<close> not being there yet (\<open>hasattr(self, "_board")\<close> is false).
\<close>

record SwitchableHetProcessor =
  switchable_cores :: "(string \<times> core_ref list) list"
  current_cores :: "core_ref list"
  processor_isa :: ISA
  prepare_kvm :: bool
  kvm_vm :: bool
  board :: "AbstractBoard option"

text \<open>The two-configuration processors add the two keys, the flag that says whether
  the starting configuration is the active one, and the memory mode.\<close>

record CoreSwitchableHetProcessor = SwitchableHetProcessor +
  start_key :: string
  switch_key :: string
  current_is_start :: bool
  proc_mem_mode :: MemMode

subsection \<open>The core handle\<close>

text \<open>
  Modelled from the spec: \<open>BaseCPUCore.set_switched_out\<close> (the class is not under src).
  Section 4.1: \<open>setSwitchedOut(bool)\<close> mutates only the \<open>switchedOut\<close> flag and has no
  other side effect.
\<close>

definition set_switched_out :: "core_ref \<Rightarrow> bool \<Rightarrow> store \<Rightarrow> store" where
  "set_switched_out core v st = st(core := (st core)\<lparr>switched_out := v\<rparr>)"

subsection \<open>SwitchableHetProcessor\<close>

text \<open>\<open>_all_cores\<close>: the cores of every configuration, in dictionary order.\<close>

definition all_cores :: "(string \<times> core_ref list) list \<Rightarrow> core_ref list" where
  "all_cores cfgs = concat (map snd cfgs)"

text \<open>
  \<open>__init__\<close>. The key must be in the dictionary; the cores of the starting list must
  have exactly one instruction set between them; then every core of every list is marked
  switched out unless it is in the starting list (\<open>core not in self._current_cores\<close>
  compares object identities), and a KVM virtual machine is prepared when any core is a
  KVM core. \<open>self._current_cores[0]\<close> is the first core of the starting list; the
  assertion before it has excluded the empty list, on which it would raise an
  \<open>IndexError\<close>. The \<open>setattr(self, name, core_list)\<close> of the loop only gives the
  lists a name for the statistics and is not part of the state modelled here:
  configuration names are taken not to be names of attributes of the processor.
\<close>

definition SwitchableHetProcessor_init ::
  "(string \<times> core_ref list) list \<Rightarrow> string \<Rightarrow> store
     \<Rightarrow> (error + SwitchableHetProcessor) \<times> store" where
  "SwitchableHetProcessor_init cfgs starting_cores st =
     (case map_of cfgs starting_cores of
        None \<Rightarrow>
          (Inl (AssertionError (''Key '' @ starting_cores @
              '' cannot be found in the switchable_processors dictionary.'')), st)
      | Some cur \<Rightarrow>
          if length (remdups (map (\<lambda>core. isa (st core)) cur)) \<noteq> 1
          then (Inl (AssertionError ''''), st)
          else
            (case cur of
               [] \<Rightarrow> (Inl IndexError, st)
             | core0 # rest \<Rightarrow>
                 let st' = fold (\<lambda>(name, core_list).
                               fold (\<lambda>core. set_switched_out core (core \<notin> set cur))
                                 core_list)
                             cfgs st;
                     kvm = list_ex (\<lambda>core. is_kvm (st' core)) (all_cores cfgs)
                 in (Inr \<lparr>switchable_cores = cfgs, current_cores = cur,
                           processor_isa = isa (st core0),
                           prepare_kvm = kvm, kvm_vm = kvm, board = None\<rparr>, st')))"

text \<open>
  The loop of \<open>incorporate_processor\<close> over \<open>enumerate(kvm_cores)\<close>: every object
  \<open>descendants()\<close> yields for the sim object of the core is put on event queue 0, then
  the sim object itself on queue \<open>i + 1\<close>.
\<close>

fun assign_eventq :: "nat \<Rightarrow> core_ref list \<Rightarrow> store \<Rightarrow> store" where
  "assign_eventq i [] st = st"
| "assign_eventq i (core # kvm_cores) st =
     assign_eventq (Suc i) kvm_cores
       (st(core := (st core)\<lparr>eventq_index := 0,
                               sub_eventq := map (\<lambda>_. 0) (sub_eventq (st core))\<rparr>
                            \<lparr>eventq_index := i + 1\<rparr>))"

definition incorporate_processor ::
  "AbstractBoard \<Rightarrow> 'a SwitchableHetProcessor_scheme \<times> store
     \<Rightarrow> 'a SwitchableHetProcessor_scheme \<times> store" where
  "incorporate_processor b s =
     (case s of (p, st) \<Rightarrow>
        (p\<lparr>board := Some b\<rparr>,
         if prepare_kvm p
         then assign_eventq 0
                (filter (\<lambda>core. is_kvm (st core)) (all_cores (switchable_cores p))) st
         else st))"

definition get_num_cores :: "'a SwitchableHetProcessor_scheme \<Rightarrow> nat" where
  "get_num_cores p = length (current_cores p)"

definition get_cores :: "'a SwitchableHetProcessor_scheme \<Rightarrow> core_ref list" where
  "get_cores p = current_cores p"

text \<open>
  Modelled from the spec: \<open>m5.switchCpus\<close>, the atomic swap primitive of the simulation
  substrate (not under src). Sections 4.4 and 6 and the glossary: one call with all
  (outgoing, incoming) pairs, which replaces the active model of every slot at once and
  is all-or-nothing: a swap it cannot perform fails and changes nothing. A model is
  active exactly when it is not switched out (section 3), so the swap is refused unless
  every outgoing model is active and every incoming model is switched out; a swap that is
  performed switches every outgoing model out and every incoming model in.
\<close>

definition switchCpus ::
  "AbstractBoard \<Rightarrow> (core_ref \<times> core_ref) list \<Rightarrow> store \<Rightarrow> (error + unit) \<times> store" where
  "switchCpus system cpuList st =
     (if list_ex (\<lambda>(old_cpu, new_cpu).
            switched_out (st old_cpu) \<or> \<not> switched_out (st new_cpu)) cpuList
      then (Inl (RuntimeError ''switchCpus''), st)
      else (Inr (),
            fold (\<lambda>(old_cpu, new_cpu). set_switched_out new_cpu False) cpuList
              (fold (\<lambda>(old_cpu, new_cpu). set_switched_out old_cpu True) cpuList st)))"

text \<open>
  \<open>switch_to_processor\<close>: the four checks in the order of the source, the swap of the
  zipped sim objects, and the update of \<open>_current_cores\<close>. Two lists are equal in Python
  when they hold the same cores in the same order.
\<close>

definition switch_to_processor ::
  "string \<Rightarrow> 'a SwitchableHetProcessor_scheme \<times> store
     \<Rightarrow> (error + unit) \<times> 'a SwitchableHetProcessor_scheme \<times> store" where
  "switch_to_processor switchable_core_key s =
     (case s of (p, st) \<Rightarrow>
        (case board p of
           None \<Rightarrow> (Inl (AssertionError ''The processor has not been incorporated.''), s)
         | Some b \<Rightarrow>
            (case map_of (switchable_cores p) switchable_core_key of
               None \<Rightarrow>
                 (Inl (AssertionError (''Key '' @ switchable_core_key @
                     '' is not a key in the switchable_processor dictionary.'')), s)
             | Some to_switch \<Rightarrow>
                 if to_switch = current_cores p
                 then (Inl (AssertionError
                         ''Cannot swap current cores with the current cores''), s)
                 else if length to_switch \<noteq> length (current_cores p)
                 then (Inl (AssertionError
                         (''The number of cores to swap in is not the same as the number '' @
                          ''already swapped in. This is not allowed.'')), s)
                 else
                   (case switchCpus b (zip (current_cores p) to_switch) st of
                      (Inl e, st') \<Rightarrow> (Inl e, p, st')
                    | (Inr u, st') \<Rightarrow> (Inr (), p\<lparr>current_cores := to_switch\<rparr>, st')))))"

subsection \<open>CoreSwitchableHetProcessor\<close>

text \<open>
  Modelled from the spec: the constructor \<open>BaseCPUCore(core=..., isa=...)\<close> (not under
  src). Section 2: a core handle is a thin wrapper around one core model and exposes the
  instruction set it was given.
\<close>

definition BaseCPUCore_init :: "core_ref \<Rightarrow> ISA \<Rightarrow> store \<Rightarrow> core_ref \<times> store" where
  "BaseCPUCore_init core i st = (core, st(core := (st core)\<lparr>isa := i\<rparr>))"

text \<open>The list comprehension \<open>[BaseCPUCore(core=c, isa=isa) for c in ...]\<close>.\<close>

fun wrap_cores :: "core_ref list \<Rightarrow> ISA \<Rightarrow> store \<Rightarrow> core_ref list \<times> store" where
  "wrap_cores [] i st = ([], st)"
| "wrap_cores (c # cs) i st =
     (case BaseCPUCore_init c i st of (h, st1) \<Rightarrow>
        (case wrap_cores cs i st1 of (hs, st2) \<Rightarrow> (h # hs, st2)))"

text \<open>
  \<open>CoreSwitchableHetProcessor.__init__\<close>: the memory mode of the first starting CPU
  (\<open>cores[0][0]\<close> raises on an empty list), the two configurations \<open>start\<close> and
  \<open>switch\<close> made of the first and the second CPU of every pair, and the constructor of
  the base class with \<open>start\<close> as the starting configuration.
\<close>

definition CoreSwitchableHetProcessor_init ::
  "(core_ref \<times> core_ref) list \<Rightarrow> ISA \<Rightarrow> store
     \<Rightarrow> (error + CoreSwitchableHetProcessor) \<times> store" where
  "CoreSwitchableHetProcessor_init cores i st =
     (case cores of
        [] \<Rightarrow> (Inl IndexError, st)
      | proc0 # rest \<Rightarrow>
          let mm = memory_mode (st (fst proc0)) in
          (case wrap_cores (map fst cores) i st of (start_cores, st1) \<Rightarrow>
          (case wrap_cores (map snd cores) i st1 of (switch_cores, st2) \<Rightarrow>
          (case SwitchableHetProcessor_init
                  [(''start'', start_cores), (''switch'', switch_cores)] ''start'' st2 of
             (Inl e, st3) \<Rightarrow> (Inl e, st3)
           | (Inr p, st3) \<Rightarrow>
               (Inr \<lparr>switchable_cores = switchable_cores p,
                      current_cores = current_cores p,
                      processor_isa = processor_isa p,
                      prepare_kvm = prepare_kvm p, kvm_vm = kvm_vm p, board = board p,
                      start_key = ''start'', switch_key = ''switch'',
                      current_is_start = True, proc_mem_mode = mm\<rparr>, st3)))))"

text \<open>
  \<open>CoreSwitchableHetProcessor.incorporate_processor\<close>: the method of the base class,
  then the memory mode is handed to the board (an atomic core on a Ruby cache hierarchy
  becomes \<open>atomic_noncaching\<close>). The processor keeps a reference to the board, so it sees
  the memory mode the board was given.
\<close>

definition CoreSwitchableHetProcessor_incorporate_processor ::
  "AbstractBoard \<Rightarrow> CoreSwitchableHetProcessor \<times> store
     \<Rightarrow> CoreSwitchableHetProcessor \<times> store" where
  "CoreSwitchableHetProcessor_incorporate_processor b s =
     (case incorporate_processor b s of (p, st) \<Rightarrow>
        let mm = (if is_ruby b \<and> proc_mem_mode p = ATOMIC
                  then ATOMIC_NONCACHING else proc_mem_mode p)
        in (p\<lparr>proc_mem_mode := mm, board := Some (b\<lparr>mem_mode := Some mm\<rparr>)\<rparr>, st))"


text \<open>
  What every \<open>CoreSwitchableHetProcessor\<close> satisfies from its construction on: the
  dictionary has exactly the two keys \<open>start\<close> and \<open>switch\<close>, in this order, and
  the active list is the list of one of them.
\<close>

definition two_configurations :: "CoreSwitchableHetProcessor \<Rightarrow> bool" where
  "two_configurations p \<longleftrightarrow>
     map fst (switchable_cores p) = [start_key p, switch_key p] \<and>
     start_key p \<noteq> switch_key p \<and>
     current_cores p \<in> set (map snd (switchable_cores p))"

subsection \<open>SimpleSwitchableHetProcessor\<close>

text \<open>The first loop of \<open>SimpleSwitchableHetProcessor.__init__\<close>: every entry
  \<open>(start, switch, #cores)\<close> of \<open>core_types\<close> must have a positive number of cores.\<close>

fun check_core_counts :: "('ct \<times> 'ct \<times> int) list \<Rightarrow> error + unit" where
  "check_core_counts [] = Inr ()"
| "check_core_counts (c # core_types) =
     (if snd (snd c) \<le> 0
      then Inl (AssertionError ''Number of cores must be a positive integer!'')
      else check_core_counts core_types)"

text \<open>The list comprehension
  \<open>[SimpleCore(cpu_type=config[i], core_id=i, isa=isa) for i in range(total_num_cores)]\<close>,
  over the indices it still has to visit.\<close>

fun create_cores ::
  "('ct \<Rightarrow> nat \<Rightarrow> 'i \<Rightarrow> 'w \<Rightarrow> core_ref \<times> 'w) \<Rightarrow> 'ct list \<Rightarrow> nat list \<Rightarrow> 'i \<Rightarrow> 'w
     \<Rightarrow> (error + core_ref list) \<times> 'w" where
  "create_cores SimpleCore config [] i w = (Inr [], w)"
| "create_cores SimpleCore config (n # ns) i w =
     (if n < length config
      then (case SimpleCore (config ! n) n i w of (c, w1) \<Rightarrow>
              (case create_cores SimpleCore config ns i w1 of
                 (Inl e, w2) \<Rightarrow> (Inl e, w2)
               | (Inr cs, w2) \<Rightarrow> (Inr (c # cs), w2)))
      else (Inl IndexError, w))"

text \<open>The state of a \<open>SimpleSwitchableHetProcessor\<close>: the state of its base class and
  the attributes the class adds.\<close>

record 'p SimpleSwitchableHetProcessor =
  base :: 'p
  simple_start_key :: string
  simple_switch_key :: string
  simple_current_is_start :: bool
  simple_mem_mode :: MemMode

text \<open>
  \<open>SimpleSwitchableHetProcessor.__init__\<close>. The class derives from the stock
  \<open>SwitchableProcessor\<close> and builds its cores with \<open>SimpleCore\<close>; neither is under
  src, nor are \<open>CPUTypes\<close> and \<open>get_mem_mode\<close>, so the constructor takes them as
  parameters: \<open>SimpleCore\<close> creates a core in the world \<open>w\<close> and returns a reference to
  it, \<open>super_init\<close> is the constructor of the base class.
\<close>

definition SimpleSwitchableHetProcessor_init ::
  "('ct \<Rightarrow> MemMode) \<Rightarrow> ('ct \<Rightarrow> nat \<Rightarrow> 'i \<Rightarrow> 'w \<Rightarrow> core_ref \<times> 'w)
     \<Rightarrow> ((string \<times> core_ref list) list \<Rightarrow> string \<Rightarrow> 'w \<Rightarrow> (error + 'p) \<times> 'w)
     \<Rightarrow> ('ct \<times> 'ct \<times> int) list \<Rightarrow> 'i \<Rightarrow> 'w
     \<Rightarrow> (error + 'p SimpleSwitchableHetProcessor) \<times> 'w" where
  "SimpleSwitchableHetProcessor_init get_mem_mode SimpleCore super_init core_types i w =
     (case check_core_counts core_types of
        Inl e \<Rightarrow> (Inl e, w)
      | Inr u \<Rightarrow>
          let total_num_cores = sum_list (map (\<lambda>ct. snd (snd ct)) core_types) in
          (case core_types of
             [] \<Rightarrow> (Inl IndexError, w)
           | ct0 # rest \<Rightarrow>
               let mm = get_mem_mode (fst ct0);
                   starting_config =
                     concat (map (\<lambda>ct. replicate (nat (snd (snd ct))) (fst ct)) core_types);
                   switch_config =
                     concat (map (\<lambda>ct. replicate (nat (snd (snd ct))) (fst (snd ct)))
                               core_types)
               in
               (case create_cores SimpleCore starting_config [0..<nat total_num_cores] i w of
                  (Inl e, w1) \<Rightarrow> (Inl e, w1)
                | (Inr start_cores, w1) \<Rightarrow>
               (case create_cores SimpleCore switch_config [0..<nat total_num_cores] i w1 of
                  (Inl e, w2) \<Rightarrow> (Inl e, w2)
                | (Inr switch_cores, w2) \<Rightarrow>
               (case super_init [(''start'', start_cores), (''switch'', switch_cores)]
                       ''start'' w2 of
                  (Inl e, w3) \<Rightarrow> (Inl e, w3)
                | (Inr p, w3) \<Rightarrow>
                    (Inr \<lparr>base = p, simple_start_key = ''start'',
                           simple_switch_key = ''switch'',
                           simple_current_is_start = True, simple_mem_mode = mm\<rparr>, w3))))))"

subsection \<open>A processor like the one of x86-ubuntu-run.py\<close>

text \<open>
  The run script pairs every KVM core with an \<open>AtomicSimpleCPU\<close> of the same id. The
  example has two such pairs: cores 0 and 1 are KVM cores, cores 2 and 3 their
  simulated stand-ins, every core owns two sub-objects, and everything starts on the
  default event queue 0.
\<close>

definition example_store :: store where
  "example_store = (\<lambda>c. \<lparr>isa = X86, is_kvm = (c < 2), switched_out = False,
                          eventq_index = 0, sub_eventq = [0, 0],
                          memory_mode = (if c < 2 then ATOMIC_NONCACHING else ATOMIC)\<rparr>)"

definition example_cores :: "(core_ref \<times> core_ref) list" where
  "example_cores = [(0, 2), (1, 3)]"

definition example_board :: AbstractBoard where
  "example_board = \<lparr>is_ruby = True, mem_mode = None\<rparr>"

text \<open>The same two configurations for the base class: its constructor, then its
  \<open>incorporate_processor\<close>.\<close>

definition example_configurations :: "(string \<times> core_ref list) list" where
  "example_configurations = [(''start'', [0, 1]), (''switch'', [2, 3])]"

definition example_constructed :: "(error + SwitchableHetProcessor) \<times> store" where
  "example_constructed =
     SwitchableHetProcessor_init example_configurations ''start'' example_store"

definition example_base_incorporated :: "SwitchableHetProcessor \<times> store" where
  "example_base_incorporated =
     incorporate_processor example_board
       (projr (fst example_constructed), snd example_constructed)"



text \<open>The processor and the store after construction and incorporation (see
  \<open>example_built\<close> below): the \<open>start\<close> configuration is active, the KVM cores 0 and
  1 run on the event queues 1 and 2.\<close>

definition example_processor :: CoreSwitchableHetProcessor where
  "example_processor =
     \<lparr>switchable_cores = [(''start'', [0, 1]), (''switch'', [2, 3])],
      current_cores = [0, 1], processor_isa = X86, prepare_kvm = True, kvm_vm = True,
      board = Some \<lparr>is_ruby = True, mem_mode = Some ATOMIC_NONCACHING\<rparr>,
      start_key = ''start'', switch_key = ''switch'',
      current_is_start = True, proc_mem_mode = ATOMIC_NONCACHING\<rparr>"

definition example_incorporated :: store where
  "example_incorporated =
     (\<lambda>c. \<lparr>isa = X86, is_kvm = (c < 2), switched_out = (c = 2 \<or> c = 3),
            eventq_index = (if c < 2 then c + 1 else 0), sub_eventq = [0, 0],
            memory_mode = (if c < 2 then ATOMIC_NONCACHING else ATOMIC)\<rparr>)"

definition example_state :: "CoreSwitchableHetProcessor \<times> store" where
  "example_state = (example_processor, example_incorporated)"

text \<open>The example after a switch to the stand-ins, after the switch back, and after a
  third switch.\<close>

definition example_switched :: "CoreSwitchableHetProcessor \<times> store" where
  "example_switched = snd (switch_to_processor ''switch'' example_state)"





text \<open>
  For \<open>SimpleSwitchableHetProcessor\<close>, whose collaborators are parameters: CPU types
  are given by name, the world is the store with the next free reference, \<open>SimpleCore\<close>
  allocates a core there, and the base class is constructed like a
  \<open>SwitchableHetProcessor\<close>.
\<close>

definition example_get_mem_mode :: "string \<Rightarrow> MemMode" where
  "example_get_mem_mode t =
     (if t = ''kvm'' then ATOMIC_NONCACHING else if t = ''atomic'' then ATOMIC else TIMING)"

definition example_SimpleCore ::
  "string \<Rightarrow> nat \<Rightarrow> ISA \<Rightarrow> store \<times> nat \<Rightarrow> core_ref \<times> store \<times> nat" where
  "example_SimpleCore t core_id i w =
     (snd w,
      (fst w)(snd w := \<lparr>isa = i, is_kvm = (t = ''kvm''), switched_out = False,
                          eventq_index = 0, sub_eventq = [0, 0],
                          memory_mode = example_get_mem_mode t\<rparr>),
      Suc (snd w))"

definition example_super_init ::
  "(string \<times> core_ref list) list \<Rightarrow> string \<Rightarrow> store \<times> nat
     \<Rightarrow> (error + SwitchableHetProcessor) \<times> store \<times> nat" where
  "example_super_init cfgs starting_cores w =
     (case SwitchableHetProcessor_init cfgs starting_cores (fst w) of
        (r, st) \<Rightarrow> (r, st, snd w))"

section \<open>Properties\<close>

subsection \<open>What a switch does\<close>

text \<open>Marking a list of cores: every core of the list gets its flag, nothing else
  changes.\<close>

lemma fold_set_switched_out:
  "fold (\<lambda>core. set_switched_out core (g core)) cs st =
     (\<lambda>c. if c \<in> set cs then (st c)\<lparr>switched_out := g c\<rparr> else st c)"
  by (induction cs arbitrary: st) (auto simp: set_switched_out_def fun_eq_iff)

lemma fold_old_cpu:
  "fold (\<lambda>(old_cpu, new_cpu). f old_cpu) ps st = fold f (map fst ps) st"
  by (induction ps arbitrary: st) auto

lemma fold_new_cpu:
  "fold (\<lambda>(old_cpu, new_cpu). f new_cpu) ps st = fold f (map snd ps) st"
  by (induction ps arbitrary: st) auto

lemma list_ex_zip:
  "length xs = length ys \<Longrightarrow>
   list_ex (\<lambda>(x, y). P x \<or> Q y) (zip xs ys) \<longleftrightarrow> (\<exists>x\<in>set xs. P x) \<or> (\<exists>y\<in>set ys. Q y)"
  by (induction xs ys rule: list_induct2) auto

text \<open>The swap of two lists of the same length, as \<open>switch_to_processor\<close> asks for
  it.\<close>

lemma switchCpus_zip:
  assumes "length old = length new"
  shows "switchCpus b (zip old new) st =
     (if (\<exists>c\<in>set old. switched_out (st c)) \<or> (\<exists>c\<in>set new. \<not> switched_out (st c))
      then (Inl (RuntimeError ''switchCpus''), st)
      else (Inr (),
            \<lambda>c. if c \<in> set new then (st c)\<lparr>switched_out := False\<rparr>
                 else if c \<in> set old then (st c)\<lparr>switched_out := True\<rparr> else st c))"
  using assms
  by (auto simp: switchCpus_def list_ex_zip fold_old_cpu fold_new_cpu
        fold_set_switched_out [where g = "\<lambda>_. True"] fold_set_switched_out [where g = "\<lambda>_. False"]
        fun_eq_iff)

text \<open>A call of \<open>switch_to_processor\<close> that returns: all four checks passed, the
  substrate accepted the swap, the flags of the two lists were flipped and the target
  list became the active one.\<close>

lemma switch_to_processor_Inr:
  assumes "switch_to_processor key (p, st) = (Inr u, p', st')"
  shows "\<exists>b to_switch. board p = Some b \<and> map_of (switchable_cores p) key = Some to_switch \<and>
           to_switch \<noteq> current_cores p \<and> length to_switch = length (current_cores p) \<and>
           (\<forall>c\<in>set (current_cores p). \<not> switched_out (st c)) \<and>
           (\<forall>c\<in>set to_switch. switched_out (st c)) \<and>
           p' = p\<lparr>current_cores := to_switch\<rparr> \<and>
           st' = (\<lambda>c. if c \<in> set to_switch then (st c)\<lparr>switched_out := False\<rparr>
                       else if c \<in> set (current_cores p) then (st c)\<lparr>switched_out := True\<rparr>
                       else st c)"
  using assms
  by (auto simp: switch_to_processor_def switchCpus_zip split: option.splits if_splits)



subsection \<open>The example processor\<close>

lemma example_switch_ok: "switch_to_processor ''switch'' example_state = (Inr (), example_switched)"
proof -
  have "fst (switch_to_processor ''switch'' example_state) = Inr ()"
    by (simp add: switch_to_processor_def example_state_def example_processor_def
      example_incorporated_def switchCpus_def set_switched_out_def)
  then show ?thesis
    unfolding example_switched_def by (metis prod.collapse)
qed




text \<open>
  Claim C3. \<open>switch_to_processor(targetName)\<close> raises an \<open>AssertionError\<close> and leaves
  the processor and every core as they were whenever the processor has not been
  incorporated, or \<open>targetName\<close> is not a key of the dictionary, or the list under
  \<open>targetName\<close> is the active list (as it is when \<open>targetName\<close> names the active
  configuration).
\<close>

theorem switch_to_processor_usage_error:
  assumes "board p = None \<or> map_of (switchable_cores p) targetName = None \<or>
           map_of (switchable_cores p) targetName = Some (current_cores p)"
  shows "\<exists>msg. switch_to_processor targetName (p, st) = (Inl (AssertionError msg), p, st)"
  using assms by (auto simp: switch_to_processor_def split: option.splits)

text \<open>The example: the active configuration, an unknown name, and a processor that was
  not incorporated.\<close>

theorem switch_to_processor_usage_error_witness:
  "map_of (switchable_cores example_processor) ''start'' = Some (current_cores example_processor) \<and>
   map_of (switchable_cores example_processor) ''baseline'' = None \<and>
   board (example_processor\<lparr>board := None\<rparr>) = None \<and>
   (\<exists>msg. switch_to_processor ''start'' (example_processor, example_incorporated) =
      (Inl (AssertionError msg), example_processor, example_incorporated)) \<and>
   (\<exists>msg. switch_to_processor ''baseline'' (example_processor, example_incorporated) =
      (Inl (AssertionError msg), example_processor, example_incorporated)) \<and>
   (\<exists>msg. switch_to_processor ''switch'' (example_processor\<lparr>board := None\<rparr>, example_incorporated) =
      (Inl (AssertionError msg), example_processor\<lparr>board := None\<rparr>, example_incorporated))"
proof -
  have a: "map_of (switchable_cores example_processor) ''start'' =
             Some (current_cores example_processor)"
    by (simp add: example_processor_def)
  have b: "map_of (switchable_cores example_processor) ''baseline'' = None"
    by (simp add: example_processor_def)
  have c: "board (example_processor\<lparr>board := None\<rparr>) = None" by simp
  show ?thesis
    using a b c
      switch_to_processor_usage_error [of example_processor "''start''" example_incorporated]
      switch_to_processor_usage_error [of example_processor "''baseline''" example_incorporated]
      switch_to_processor_usage_error
        [of "example_processor\<lparr>board := None\<rparr>" "''switch''" example_incorporated]
    by blast
qed

text \<open>
  Claim C9. \<open>get_num_cores()\<close> is the length of the active list, and a call of
  \<open>switch_to_processor\<close> that returned has left it unchanged.
\<close>

theorem get_num_cores_invariant:
  "get_num_cores p = length (current_cores p) \<and>
   (switch_to_processor targetName (p, st) = (Inr (), p', st') \<longrightarrow>
      get_num_cores p' = get_num_cores p)"
  by (auto simp: get_num_cores_def dest!: switch_to_processor_Inr)

text \<open>The example: two cores before and after the switch.\<close>

theorem get_num_cores_invariant_witness:
  "switch_to_processor ''switch'' example_state = (Inr (), example_switched) \<and>
   get_num_cores (fst example_state) = 2 \<and> get_num_cores (fst example_switched) = 2"
proof -
  have h: "switch_to_processor ''switch'' (fst example_state, snd example_state) =
             (Inr (), fst example_switched, snd example_switched)"
    using example_switch_ok by simp
  have "get_num_cores (fst example_state) = 2"
    by (simp add: get_num_cores_def example_state_def example_processor_def)
  then show ?thesis
    using get_num_cores_invariant
      [of "fst example_state" "''switch''" "snd example_state" "fst example_switched"
          "snd example_switched"] h example_switch_ok
    by simp
qed

subsection \<open>Construction and incorporation\<close>

text \<open>The two nested loops of \<open>__init__\<close>: every core of every configuration gets its
  flag.\<close>

lemma fold_configurations:
  "fold (\<lambda>(name, core_list). fold (\<lambda>core. set_switched_out core (g core)) core_list) cfgs st =
     (\<lambda>c. if c \<in> set (all_cores cfgs) then (st c)\<lparr>switched_out := g c\<rparr> else st c)"
proof (induction cfgs arbitrary: st)
  case Nil
  show ?case by (simp add: all_cores_def)
next
  case (Cons cfg cfgs)
  obtain name core_list where cfg: "cfg = (name, core_list)" by (cases cfg)
  let ?inner = "fold (\<lambda>core. set_switched_out core (g core)) core_list st"
  have "fold (\<lambda>(name, core_list). fold (\<lambda>core. set_switched_out core (g core)) core_list)
          (cfg # cfgs) st =
        fold (\<lambda>(name, core_list). fold (\<lambda>core. set_switched_out core (g core)) core_list)
          cfgs ?inner"
    by (simp add: cfg)
  also have "\<dots> = (\<lambda>c. if c \<in> set (all_cores cfgs)
                        then (?inner c)\<lparr>switched_out := g c\<rparr> else ?inner c)"
    by (rule Cons.IH)
  also have "\<dots> = (\<lambda>c. if c \<in> set (all_cores (cfg # cfgs))
                        then (st c)\<lparr>switched_out := g c\<rparr> else st c)"
    by (auto simp: cfg fold_set_switched_out all_cores_def fun_eq_iff)
  finally show ?case .
qed

text \<open>A construction that succeeds.\<close>

lemma SwitchableHetProcessor_init_Inr:
  assumes "SwitchableHetProcessor_init cfgs starting st = (Inr p, st1)"
  shows "\<exists>cur. map_of cfgs starting = Some cur \<and>
           length (remdups (map (\<lambda>core. isa (st core)) cur)) = 1 \<and>
           switchable_cores p = cfgs \<and> current_cores p = cur \<and> board p = None \<and>
           prepare_kvm p = (\<exists>c\<in>set (all_cores cfgs). is_kvm (st c)) \<and>
           st1 = (\<lambda>c. if c \<in> set (all_cores cfgs)
                       then (st c)\<lparr>switched_out := c \<notin> set cur\<rparr> else st c)"
  using assms
  by (auto simp: SwitchableHetProcessor_init_def Let_def fold_configurations list_ex_iff
      split: option.splits if_splits list.splits)

text \<open>The loop over the KVM cores: a core outside the list is untouched; the flags it does
  not write are kept; a core of the list ends on a queue between \<open>i + 1\<close> and
  \<open>i + len(kvm_cores)\<close>, two cores of the list on different queues, and the sub-objects
  of a core of the list on queue 0.\<close>

lemma assign_eventq_other: "c \<notin> set cs \<Longrightarrow> assign_eventq i cs st c = st c"
  by (induction cs arbitrary: i st) simp_all

lemma assign_eventq_switched_out [simp]:
  "switched_out (assign_eventq i cs st c) = switched_out (st c)"
  by (induction cs arbitrary: i st) simp_all

lemma assign_eventq_is_kvm [simp]:
  "is_kvm (assign_eventq i cs st c) = is_kvm (st c)"
  by (induction cs arbitrary: i st) simp_all

lemma assign_eventq_Cons:
  obtains st' where "assign_eventq i (core # kvm_cores) st = assign_eventq (Suc i) kvm_cores st'"
    and "eventq_index (st' core) = Suc i" and "\<forall>x\<in>set (sub_eventq (st' core)). x = 0"
proof
  let ?st = "st(core := (st core)\<lparr>eventq_index := 0,
                 sub_eventq := map (\<lambda>_. 0) (sub_eventq (st core))\<rparr>\<lparr>eventq_index := i + 1\<rparr>)"
  show "assign_eventq i (core # kvm_cores) st = assign_eventq (Suc i) kvm_cores ?st"
    by simp
  show "eventq_index (?st core) = Suc i" by simp
  show "\<forall>x\<in>set (sub_eventq (?st core)). x = 0" by simp
qed

lemma assign_eventq_bounds:
  "c \<in> set cs \<Longrightarrow>
     i < eventq_index (assign_eventq i cs st c) \<and>
     eventq_index (assign_eventq i cs st c) \<le> i + length cs"
proof (induction cs arbitrary: i st)
  case Nil
  then show ?case by simp
next
  case (Cons core kvm_cores)
  obtain st' where step: "assign_eventq i (core # kvm_cores) st = assign_eventq (Suc i) kvm_cores st'"
    and idx: "eventq_index (st' core) = Suc i"
    by (rule assign_eventq_Cons)
  show ?case
  proof (cases "c \<in> set kvm_cores")
    case True
    from Cons.IH [OF True, of "Suc i" st'] show ?thesis unfolding step by simp
  next
    case False
    with Cons.prems have c: "c = core" by simp
    have "assign_eventq (Suc i) kvm_cores st' c = st' c"
      using False by (rule assign_eventq_other)
    with c idx show ?thesis unfolding step by simp
  qed
qed

lemma assign_eventq_distinct:
  "c \<in> set cs \<Longrightarrow> c' \<in> set cs \<Longrightarrow> c \<noteq> c' \<Longrightarrow>
     eventq_index (assign_eventq i cs st c) \<noteq> eventq_index (assign_eventq i cs st c')"
proof (induction cs arbitrary: i st)
  case Nil
  then show ?case by simp
next
  case (Cons core kvm_cores)
  obtain st' where step: "assign_eventq i (core # kvm_cores) st = assign_eventq (Suc i) kvm_cores st'"
    and idx: "eventq_index (st' core) = Suc i"
    by (rule assign_eventq_Cons)
  have first: "eventq_index (assign_eventq (Suc i) kvm_cores st' a) \<noteq>
               eventq_index (assign_eventq (Suc i) kvm_cores st' b)"
    if "a \<notin> set kvm_cores" "a = core" "b \<in> set kvm_cores" for a b
  proof -
    have "assign_eventq (Suc i) kvm_cores st' a = st' a"
      using that(1) by (rule assign_eventq_other)
    then have "eventq_index (assign_eventq (Suc i) kvm_cores st' a) = Suc i"
      using that idx by simp
    moreover have "Suc i < eventq_index (assign_eventq (Suc i) kvm_cores st' b)"
      using that assign_eventq_bounds by blast
    ultimately show ?thesis by simp
  qed
  show ?case
  proof (cases "c \<in> set kvm_cores")
    case c: True
    show ?thesis
    proof (cases "c' \<in> set kvm_cores")
      case True
      from Cons.IH [OF c True \<open>c \<noteq> c'\<close>] show ?thesis unfolding step .
    next
      case False
      with Cons.prems have "c' = core" by simp
      from first [OF False this c] show ?thesis unfolding step by (rule not_sym)
    qed
  next
    case False
    with Cons.prems have "c = core" "c' \<in> set kvm_cores" by auto
    from first [OF False this] show ?thesis unfolding step .
  qed
qed

lemma assign_eventq_sub:
  "c \<in> set cs \<Longrightarrow> x \<in> set (sub_eventq (assign_eventq i cs st c)) \<Longrightarrow> x = 0"
proof (induction cs arbitrary: i st)
  case Nil
  then show ?case by simp
next
  case (Cons core kvm_cores)
  obtain st' where step: "assign_eventq i (core # kvm_cores) st = assign_eventq (Suc i) kvm_cores st'"
    and sub: "\<forall>x\<in>set (sub_eventq (st' core)). x = 0"
    by (rule assign_eventq_Cons)
  show ?case
  proof (cases "c \<in> set kvm_cores")
    case True
    from Cons.prems(2) show ?thesis unfolding step by (rule Cons.IH [OF True])
  next
    case False
    with Cons.prems have c: "c = core" by simp
    have "assign_eventq (Suc i) kvm_cores st' c = st' c"
      using False by (rule assign_eventq_other)
    with Cons.prems(2) c sub show ?thesis unfolding step by simp
  qed
qed


text \<open>Incorporation after a construction that succeeded runs the loop over the KVM cores
  of all configurations (over no core when \<open>_prepare_kvm\<close> is false).\<close>

lemma incorporate_processor_kvm:
  assumes "SwitchableHetProcessor_init cfgs starting st = (Inr p, st1)"
    and "incorporate_processor b (p, st1) = (p2, st2)"
  shows "\<exists>kvm_cores. st2 = assign_eventq 0 kvm_cores st1 \<and>
           set kvm_cores = {c \<in> set (all_cores cfgs). is_kvm (st c)} \<and>
           (\<forall>c. is_kvm (st2 c) = is_kvm (st c)) \<and>
           (\<forall>c. eventq_index (st1 c) = eventq_index (st c))"
proof -
  let ?kvm = "filter (\<lambda>core. is_kvm (st1 core)) (all_cores cfgs)"
  from SwitchableHetProcessor_init_Inr [OF assms(1)]
  obtain cur where p: "switchable_cores p = cfgs"
    and pk: "prepare_kvm p = (\<exists>c\<in>set (all_cores cfgs). is_kvm (st c))"
    and st1: "st1 = (\<lambda>c. if c \<in> set (all_cores cfgs)
                       then (st c)\<lparr>switched_out := c \<notin> set cur\<rparr> else st c)"
    by blast
  have kvm1: "\<And>c. is_kvm (st1 c) = is_kvm (st c)"
    by (simp add: st1)
  have eq1: "\<forall>c. eventq_index (st1 c) = eventq_index (st c)"
    by (simp add: st1)
  have "\<not> prepare_kvm p \<Longrightarrow> ?kvm = []"
    by (auto simp: pk kvm1 filter_empty_conv)
  then have "\<not> prepare_kvm p \<Longrightarrow> assign_eventq 0 ?kvm st1 = st1"
    by simp
  with assms(2) have st2: "st2 = assign_eventq 0 ?kvm st1"
    by (cases "prepare_kvm p") (auto simp: incorporate_processor_def p)
  have kvm2: "\<forall>c. is_kvm (st2 c) = is_kvm (st c)"
    by (simp add: st2 kvm1)
  have "set ?kvm = {c \<in> set (all_cores cfgs). is_kvm (st c)}"
    by (auto simp: kvm1)
  with st2 kvm2 eq1 show ?thesis by blast
qed


text \<open>
  Claim C4, as amended. During incorporation the sim object of each KVM handle is given
  a private event queue index, non-zero and different from the index of every other KVM
  handle, and every sub-object it owns is put on the shared default queue 0 (not on the
  queue of the handle).
\<close>

theorem accelerated_timelines:
  assumes "SwitchableHetProcessor_init cfgs starting st = (Inr p, st1)"
    and "incorporate_processor b (p, st1) = (p2, st2)"
  shows "\<forall>c\<in>set (all_cores cfgs). is_kvm (st2 c) \<longrightarrow>
           eventq_index (st2 c) \<noteq> 0 \<and>
           (\<forall>x\<in>set (sub_eventq (st2 c)). x = 0) \<and>
           (\<forall>c'\<in>set (all_cores cfgs). is_kvm (st2 c') \<and> c' \<noteq> c \<longrightarrow>
              eventq_index (st2 c') \<noteq> eventq_index (st2 c))"
proof (intro ballI impI conjI)
  from incorporate_processor_kvm [OF assms]
  obtain kvm_cores where st2: "st2 = assign_eventq 0 kvm_cores st1"
    and kvm: "set kvm_cores = {c \<in> set (all_cores cfgs). is_kvm (st c)}"
    and kvm2: "\<forall>c. is_kvm (st2 c) = is_kvm (st c)"
    by blast
  fix c assume "c \<in> set (all_cores cfgs)" "is_kvm (st2 c)"
  then have c: "c \<in> set kvm_cores" by (simp add: kvm kvm2)
  from assign_eventq_bounds [OF c, of 0 st1] show "eventq_index (st2 c) \<noteq> 0"
    by (simp add: st2)
  show "x = 0" if "x \<in> set (sub_eventq (st2 c))" for x
    using c that unfolding st2 by (rule assign_eventq_sub)
  show "eventq_index (st2 c') \<noteq> eventq_index (st2 c)"
    if "c' \<in> set (all_cores cfgs)" "is_kvm (st2 c') \<and> c' \<noteq> c" for c'
  proof -
    from that have "c' \<in> set kvm_cores" "c' \<noteq> c" by (simp_all add: kvm kvm2)
    from assign_eventq_distinct [OF this(1) c this(2), of 0 st1] show ?thesis
      by (simp add: st2)
  qed
qed

text \<open>The example of the base class.\<close>

lemma example_constructed_ok:
  "fst example_constructed =
     Inr \<lparr>switchable_cores = example_configurations, current_cores = [0, 1],
           processor_isa = X86, prepare_kvm = True, kvm_vm = True, board = None\<rparr>"
  by (simp add: example_constructed_def SwitchableHetProcessor_init_def
      example_configurations_def example_store_def all_cores_def set_switched_out_def)

lemma example_constructed_pair:
  "SwitchableHetProcessor_init example_configurations ''start'' example_store =
     (Inr (projr (fst example_constructed)), snd example_constructed)"
  using example_constructed_ok
  by (cases "SwitchableHetProcessor_init example_configurations ''start'' example_store")
     (simp add: example_constructed_def)

lemma example_base_incorporated_pair:
  "incorporate_processor example_board (projr (fst example_constructed), snd example_constructed) =
     (fst example_base_incorporated, snd example_base_incorporated)"
  by (simp add: example_base_incorporated_def)


lemma example_is_kvm:
  "is_kvm (snd example_base_incorporated c) = (c < 2)"
  by (simp add: example_base_incorporated_def example_constructed_ok incorporate_processor_def
      example_constructed_def SwitchableHetProcessor_init_def
      example_configurations_def all_cores_def set_switched_out_def example_store_def)



text \<open>Claim C4 as the spec states it fails: KVM core 0 runs on queue 1 after
  incorporation, and its two sub-objects are on queue 0.\<close>

theorem sub_objects_counterexample:
  "is_kvm (snd example_base_incorporated 0) \<and>
   eventq_index (snd example_base_incorporated 0) = 1 \<and>
   sub_eventq (snd example_base_incorporated 0) = [0, 0]"
  by (simp add: example_base_incorporated_def example_constructed_ok incorporate_processor_def
      example_constructed_def SwitchableHetProcessor_init_def
      example_configurations_def all_cores_def set_switched_out_def example_store_def)

text \<open>The example for the amended claim.\<close>

theorem accelerated_timelines_witness:
  "is_kvm (snd example_base_incorporated 0) \<and> is_kvm (snd example_base_incorporated 1) \<and>
   eventq_index (snd example_base_incorporated 0) \<noteq> 0 \<and>
   eventq_index (snd example_base_incorporated 1) \<noteq> 0 \<and>
   eventq_index (snd example_base_incorporated 1) \<noteq> eventq_index (snd example_base_incorporated 0) \<and>
   list_all (\<lambda>x. x = 0) (sub_eventq (snd example_base_incorporated 0)) \<and>
   list_all (\<lambda>x. x = 0) (sub_eventq (snd example_base_incorporated 1))"
  using accelerated_timelines [OF example_constructed_pair example_base_incorporated_pair]
  by (simp add: example_is_kvm example_configurations_def all_cores_def list_all_iff)

subsection \<open>Switching there and back\<close>









subsection \<open>The toggle\<close>





text \<open>The constructor of \<open>CoreSwitchableHetProcessor\<close> builds a two-configuration
  processor; its \<open>incorporate_processor\<close> and a direct \<open>switch_to_processor\<close> keep it
  one, as \<open>switch\<close> does.\<close>

lemma wrap_cores_eq:
  "wrap_cores cs i st = (cs, \<lambda>c. if c \<in> set cs then (st c)\<lparr>isa := i\<rparr> else st c)"
  by (induction cs arbitrary: st) (auto simp: BaseCPUCore_init_def fun_eq_iff)

lemma CoreSwitchableHetProcessor_init_Inr:
  assumes "CoreSwitchableHetProcessor_init cores i st = (Inr p, st')"
  shows "switchable_cores p = [(''start'', map fst cores), (''switch'', map snd cores)] \<and>
         current_cores p = map fst cores \<and> board p = None \<and>
         start_key p = ''start'' \<and> switch_key p = ''switch'' \<and> current_is_start p"
proof (cases cores)
  case Nil
  with assms show ?thesis by (simp add: CoreSwitchableHetProcessor_init_def)
next
  case (Cons proc0 rest)
  let ?cfgs = "[(''start'', map fst cores), (''switch'', map snd cores)]"
  from assms Cons obtain q st2 st3 where
    q: "SwitchableHetProcessor_init ?cfgs ''start'' st2 = (Inr q, st3)"
    and p: "p = \<lparr>switchable_cores = switchable_cores q, current_cores = current_cores q,
                 processor_isa = processor_isa q, prepare_kvm = prepare_kvm q,
                 kvm_vm = kvm_vm q, board = board q, start_key = ''start'',
                 switch_key = ''switch'', current_is_start = True,
                 proc_mem_mode = memory_mode (st (fst proc0))\<rparr>"
    by (auto simp: CoreSwitchableHetProcessor_init_def wrap_cores_eq Let_def
        split: prod.splits sum.splits)
  from SwitchableHetProcessor_init_Inr [OF q] show ?thesis by (auto simp: p)
qed

lemma CoreSwitchableHetProcessor_init_two_configurations:
  "CoreSwitchableHetProcessor_init cores i st = (Inr p, st') \<Longrightarrow> two_configurations p"
  by (drule CoreSwitchableHetProcessor_init_Inr) (simp add: two_configurations_def)

lemma incorporate_two_configurations:
  assumes "CoreSwitchableHetProcessor_incorporate_processor b (p, st) = (p', st')"
    and "two_configurations p"
  shows "two_configurations p' \<and> board p' \<noteq> None \<and>
         current_is_start p' = current_is_start p"
  using assms
  by (auto simp: CoreSwitchableHetProcessor_incorporate_processor_def
      incorporate_processor_def two_configurations_def Let_def)

lemma switch_to_processor_two_configurations:
  assumes "switch_to_processor key (p, st) = (Inr (), p', st')"
    and "two_configurations p"
  shows "two_configurations p'"
proof -
  from switch_to_processor_Inr [OF assms(1)] obtain to_switch where
    "map_of (switchable_cores p) key = Some to_switch"
    and "p' = p\<lparr>current_cores := to_switch\<rparr>"
    by blast
  with assms(2) show ?thesis
    by (auto simp: two_configurations_def dest: map_of_SomeD intro: image_eqI [where x = "(key, to_switch)"])
qed

text \<open>The example is the processor the constructor and the incorporation build.\<close>

lemma example_built:
  "\<exists>p st. CoreSwitchableHetProcessor_init example_cores X86 example_store = (Inr p, st) \<and>
          CoreSwitchableHetProcessor_incorporate_processor example_board (p, st) = example_state"
  apply (simp add: CoreSwitchableHetProcessor_init_def example_cores_def wrap_cores_eq
      SwitchableHetProcessor_init_def all_cores_def set_switched_out_def example_store_def)
  apply (simp add: CoreSwitchableHetProcessor_incorporate_processor_def incorporate_processor_def
      example_state_def example_processor_def example_board_def all_cores_def
      example_incorporated_def fun_eq_iff)
  done





subsection \<open>What the constructors check\<close>




text \<open>The first loop of \<open>SimpleSwitchableHetProcessor.__init__\<close>.\<close>

lemma check_core_counts_Inr:
  "check_core_counts core_types = Inr u \<longleftrightarrow> (\<forall>c\<in>set core_types. 0 < snd (snd c))"
  by (induction core_types) auto

lemma check_core_counts_Inl:
  "(\<exists>c\<in>set core_types. snd (snd c) \<le> 0) \<Longrightarrow>
     check_core_counts core_types =
       Inl (AssertionError ''Number of cores must be a positive integer!'')"
  by (induction core_types) auto

text \<open>
  Claim C10. The construction of a \<open>SimpleSwitchableHetProcessor\<close> gets past its first
  loop exactly when every entry of \<open>core_types\<close> has a positive number of cores; when
  some entry has a number of cores that is zero or negative it raises the
  \<open>AssertionError\<close> of that loop, and it does so before any core is created: the world
  is as it was, whatever \<open>SimpleCore\<close> and the base class would do.
\<close>

theorem core_counts_checked_first:
  "(check_core_counts core_types = Inr () \<longleftrightarrow> (\<forall>c\<in>set core_types. 0 < snd (snd c))) \<and>
   ((\<exists>c\<in>set core_types. snd (snd c) \<le> 0) \<longrightarrow>
      SimpleSwitchableHetProcessor_init get_mem_mode SimpleCore super_init core_types i w =
        (Inl (AssertionError ''Number of cores must be a positive integer!''), w))"
  using check_core_counts_Inl [of core_types]
  by (simp add: check_core_counts_Inr SimpleSwitchableHetProcessor_init_def)

text \<open>The example: two KVM cores with atomic stand-ins are built as the cores 4 to 7; a
  second entry with no cores is refused and nothing is created.\<close>

lemma example_simple_constructed:
  "fst (SimpleSwitchableHetProcessor_init example_get_mem_mode example_SimpleCore
      example_super_init [(''kvm'', ''atomic'', 2)] X86 (example_store, 4)) =
   Inr \<lparr>base = \<lparr>switchable_cores = [(''start'', [4, 5]), (''switch'', [6, 7])],
                 current_cores = [4, 5], processor_isa = X86, prepare_kvm = True,
                 kvm_vm = True, board = None\<rparr>,
         simple_start_key = ''start'', simple_switch_key = ''switch'',
         simple_current_is_start = True, simple_mem_mode = ATOMIC_NONCACHING\<rparr>"
  by (simp add: SimpleSwitchableHetProcessor_init_def example_get_mem_mode_def
      example_SimpleCore_def example_super_init_def SwitchableHetProcessor_init_def
      all_cores_def set_switched_out_def upt_rec)

theorem core_counts_checked_first_witness:
  "check_core_counts [(''kvm'', ''atomic'', 2)] = Inr () \<and>
   fst (SimpleSwitchableHetProcessor_init example_get_mem_mode example_SimpleCore
      example_super_init [(''kvm'', ''atomic'', 2)] X86 (example_store, 4)) =
     Inr \<lparr>base = \<lparr>switchable_cores = [(''start'', [4, 5]), (''switch'', [6, 7])],
                   current_cores = [4, 5], processor_isa = X86, prepare_kvm = True,
                   kvm_vm = True, board = None\<rparr>,
           simple_start_key = ''start'', simple_switch_key = ''switch'',
           simple_current_is_start = True, simple_mem_mode = ATOMIC_NONCACHING\<rparr> \<and>
   check_core_counts [(''kvm'', ''atomic'', 2), (''kvm'', ''o3'', 0)] =
     Inl (AssertionError ''Number of cores must be a positive integer!'') \<and>
   SimpleSwitchableHetProcessor_init example_get_mem_mode example_SimpleCore
      example_super_init [(''kvm'', ''atomic'', 2), (''kvm'', ''o3'', 0)] X86 (example_store, 4) =
     (Inl (AssertionError ''Number of cores must be a positive integer!''), example_store, 4)"
  using core_counts_checked_first
      [of "[(''kvm'', ''atomic'', 2)]" example_get_mem_mode example_SimpleCore
          example_super_init X86 "(example_store, 4)"]
    core_counts_checked_first
      [of "[(''kvm'', ''atomic'', 2), (''kvm'', ''o3'', 0)]" example_get_mem_mode
          example_SimpleCore example_super_init X86 "(example_store, 4)"]
    example_simple_constructed
  by simp

end
